theory Spec2Isabelle
  imports Complex_Main "HOL-Library.Char_ord" "HOL-Library.List_Lexorder" "HOL-Library.AList"
begin

section \<open>Cells, rows and errors\<close>

text \<open>
  \<^verbatim>\<open>create_report.py\<close> is a pandas script over one table. The embedding covers the text
  columns of that table: a cell is a Python string or the missing value \<^verbatim>\<open>np.nan\<close>
  (\<open>None\<close> here), which is also what \<^verbatim>\<open>read_csv\<close> delivers for an empty field. A
  \<open>char\<close> stands for one code point below 256; strings with larger code points are
  outside the model. So is the typing of \<^verbatim>\<open>read_csv\<close>: it reads a column whose cells are all
  numerals as numbers, not as text, and the tables a statement is evaluated on are files
  only if each text column has a cell that is not a numeral. A column that has rows and no
  string cell is a column of floats, in the file and after the replacements of lines 136
  and 138 alike, and the accessor \<^verbatim>\<open>.str\<close> raises \<^verbatim>\<open>AttributeError\<close> on it. Reading the file
  and plotting are not modelled.
\<close>

type_synonym cell = "string option"

datatype error = KeyError | ValueError | ZeroDivisionError | TypeError | AttributeError

text \<open>Statements in sequence: the first exception ends the run.\<close>

fun bind_err :: "error + 'a \<Rightarrow> ('a \<Rightarrow> error + 'b) \<Rightarrow> error + 'b" where
  "bind_err (Inl e) f = Inl e"
| "bind_err (Inr x) f = f x"

record fields =
  Area :: cell
  Plant :: cell
  Temporary_Mod :: cell
  Status :: cell
  Project :: cell

text \<open>A row as read from the file (the column \<^verbatim>\<open>Project No\<close> renamed to \<^verbatim>\<open>Project\<close>).\<close>

record raw_row = fields +
  Mod_No :: cell

text \<open>A row after \<^verbatim>\<open>Mod_No\<close> has been split and dropped (lines 142 to 147).\<close>

record mod_row = fields +
  Mod_Id :: cell
  Mod_Yr :: cell

definition PLOT_SERVICES :: bool where
  "PLOT_SERVICES = False"

definition PROJECT_THRESHOLD :: nat where
  "PROJECT_THRESHOLD = 5"

section \<open>Character classes of Python's \<^verbatim>\<open>re\<close> and \<^verbatim>\<open>str\<close>\<close>

definition newline :: char where
  "newline = CHR 0x0A"

text \<open>\<^verbatim>\<open>\s\<close> on a \<^verbatim>\<open>str\<close> pattern, and \<^verbatim>\<open>str.isspace\<close>: the same code points.\<close>

definition is_space :: "char \<Rightarrow> bool" where
  "is_space c = (of_char c \<in> set [9, 10, 11, 12, 13, 28, 29, 30, 31, 32, 133, 160 :: nat])"

definition in_range :: "nat \<Rightarrow> nat \<Rightarrow> char \<Rightarrow> bool" where
  "in_range lo hi c = (lo \<le> of_char c \<and> of_char c \<le> hi)"

text \<open>\<^verbatim>\<open>[a-zA-Z]\<close>.\<close>

definition is_ascii_letter :: "char \<Rightarrow> bool" where
  "is_ascii_letter c = (in_range 97 122 c \<or> in_range 65 90 c)"

text \<open>
  \<^verbatim>\<open>\w\<close> on a \<^verbatim>\<open>str\<close> pattern: the underscore and every code point that
  \<^verbatim>\<open>str.isalnum\<close> accepts; below 256 these are the ranges listed.
\<close>

definition is_word :: "char \<Rightarrow> bool" where
  "is_word c =
     (in_range 48 57 c \<or> in_range 65 90 c \<or> in_range 95 95 c \<or> in_range 97 122 c \<or>
      in_range 170 170 c \<or> in_range 178 179 c \<or> in_range 181 181 c \<or> in_range 185 186 c \<or>
      in_range 188 190 c \<or> in_range 192 214 c \<or> in_range 216 246 c \<or> in_range 248 255 c)"


section \<open>The regular expressions of \<^verbatim>\<open>project_cleanup\<close>\<close>

text \<open>
  pandas replaces a string cell by a non-string value when \<^verbatim>\<open>re.search\<close> finds the
  pattern anywhere in the cell. Every pattern below contains \<^verbatim>\<open>^\<close>, and no flag is
  set, so a search can only succeed at position 0: each pattern is a predicate on the
  whole cell. \<^verbatim>\<open>$\<close> holds at the end of the string and also just before a newline that
  ends the string; \<^verbatim>\<open>.\<close> is any character but the newline.
\<close>

definition at_end :: "string \<Rightarrow> bool" where
  "at_end s = (s = [] \<or> s = [newline])"

text \<open>\<^verbatim>\<open>^C*$\<close> for a character class \<open>C\<close>.\<close>

fun star_end :: "(char \<Rightarrow> bool) \<Rightarrow> string \<Rightarrow> bool" where
  "star_end C [] = True"
| "star_end C (c # cs) = (at_end (c # cs) \<or> (C c \<and> star_end C cs))"

text \<open>\<^verbatim>\<open>^C{0,n}$\<close> for a character class \<open>C\<close>.\<close>

fun upto_end :: "(char \<Rightarrow> bool) \<Rightarrow> nat \<Rightarrow> string \<Rightarrow> bool" where
  "upto_end C 0 s = at_end s"
| "upto_end C (Suc n) [] = True"
| "upto_end C (Suc n) (c # cs) = (at_end (c # cs) \<or> (C c \<and> upto_end C n cs))"

text \<open>\<^verbatim>\<open>.*(a|A)\<close> matched from the start of the argument.\<close>

fun dot_star_a :: "string \<Rightarrow> bool" where
  "dot_star_a [] = False"
| "dot_star_a (c # cs) = (c = CHR ''a'' \<or> c = CHR ''A'' \<or> (c \<noteq> newline \<and> dot_star_a cs))"

text \<open>\<^verbatim>\<open>[a-zA-Z\W]\<close>.\<close>

definition na_class :: "char \<Rightarrow> bool" where
  "na_class c = (is_ascii_letter c \<or> \<not> is_word c)"

text \<open>
  Line 116: \<^verbatim>\<open>na_regex=r'(?=((n|N).*(a|A)))(?=^[a-zA-Z\W]{0,4}$)'\<close>. Both parts are
  lookaheads at the same position, and the second one starts with \<^verbatim>\<open>^\<close>: the position
  is 0, so the first lookahead needs the cell to begin with \<^verbatim>\<open>n\<close> or \<^verbatim>\<open>N\<close>.
\<close>

definition na_regex :: "string \<Rightarrow> bool" where
  "na_regex s =
     ((case s of [] \<Rightarrow> False | c # cs \<Rightarrow> (c = CHR ''n'' \<or> c = CHR ''N'') \<and> dot_star_a cs) \<and>
      upto_end na_class 4 s)"

text \<open>Line 120: \<^verbatim>\<open>(^\s*$)\<close>.\<close>

definition blank_regex :: "string \<Rightarrow> bool" where
  "blank_regex s = star_end is_space s"

text \<open>Line 121: \<^verbatim>\<open>(^0*$)\<close>.\<close>

definition zeros_regex :: "string \<Rightarrow> bool" where
  "zeros_regex s = star_end (\<lambda>c. c = CHR ''0'') s"

text \<open>Line 122: \<^verbatim>\<open>(^-*$)\<close>.\<close>

definition dashes_regex :: "string \<Rightarrow> bool" where
  "dashes_regex s = star_end (\<lambda>c. c = CHR ''-'') s"

text \<open>Line 123: \<^verbatim>\<open>(^\W$)\<close>.\<close>

definition nonword_regex :: "string \<Rightarrow> bool" where
  "nonword_regex s = (case s of [] \<Rightarrow> False | c # cs \<Rightarrow> \<not> is_word c \<and> at_end cs)"

section \<open>\<^verbatim>\<open>DataFrame.replace\<close> and \<^verbatim>\<open>project_cleanup\<close>\<close>

text \<open>\<^verbatim>\<open>replace\<close> is called on the whole frame: it visits every cell of every column.\<close>

definition applymap :: "(cell \<Rightarrow> cell) \<Rightarrow> raw_row \<Rightarrow> raw_row" where
  "applymap f r =
     \<lparr>Area = f (Area r), Plant = f (Plant r), Temporary_Mod = f (Temporary_Mod r),
      Status = f (Status r), Project = f (Project r), Mod_No = f (Mod_No r)\<rparr>"

text \<open>
  \<^verbatim>\<open>replace(pattern, np.nan, regex=True)\<close>: a string cell the pattern is found in becomes
  missing; a missing cell is not a string and stays.
\<close>

definition replace_regex_cell :: "(string \<Rightarrow> bool) \<Rightarrow> cell \<Rightarrow> cell" where
  "replace_regex_cell rx c = (case c of None \<Rightarrow> None | Some s \<Rightarrow> if rx s then None else Some s)"

definition replace_regex :: "(string \<Rightarrow> bool) \<Rightarrow> raw_row list \<Rightarrow> raw_row list" where
  "replace_regex rx df = map (applymap (replace_regex_cell rx)) df"

text \<open>\<^verbatim>\<open>replace([...], np.nan)\<close>: a cell equal to one of the listed values becomes missing.\<close>

definition replace_values_cell :: "string list \<Rightarrow> cell \<Rightarrow> cell" where
  "replace_values_cell vs c =
     (case c of None \<Rightarrow> None | Some s \<Rightarrow> if s \<in> set vs then None else Some s)"

definition replace_values :: "string list \<Rightarrow> raw_row list \<Rightarrow> raw_row list" where
  "replace_values vs df = map (applymap (replace_values_cell vs)) df"

text \<open>
  The comparison \<^verbatim>\<open>!=\<close> of two cells, element by element: a missing value differs from
  everything, itself included.
\<close>

definition cell_ne :: "cell \<Rightarrow> cell \<Rightarrow> bool" where
  "cell_ne a b = (case (a, b) of (Some x, Some y) \<Rightarrow> x \<noteq> y | _ \<Rightarrow> True)"

definition placeholders :: "string list" where
  "placeholders = [''TBC'', ''various'', ''TBA'', ''Multiple'']"

text \<open>Lines 100 to 126.\<close>

definition project_cleanup :: "raw_row list \<Rightarrow> raw_row list" where
  "project_cleanup dataframe =
     (let d1 = replace_regex na_regex dataframe;
          d2 = replace_values placeholders d1;
          d3 = replace_regex blank_regex d2;
          d4 = replace_regex zeros_regex d3;
          d5 = replace_regex dashes_regex d4;
          df2 = replace_regex nonword_regex d5
      in filter (\<lambda>r. cell_ne (Project r) (Mod_No r)) df2)"

section \<open>The formatting steps of the script\<close>

text \<open>Line 137: \<^verbatim>\<open>df = df[df.Status != 'Cancelled']\<close>.\<close>

definition drop_cancelled :: "raw_row list \<Rightarrow> raw_row list" where
  "drop_cancelled df = filter (\<lambda>r. cell_ne (Status r) (Some ''Cancelled'')) df"

text \<open>
  Line 138: \<^verbatim>\<open>df.replace(to_replace=r'Services*(.+)', value="Services", regex=True)\<close>.
  The value is a string, so pandas calls \<^verbatim>\<open>re.sub\<close> on every string cell of every
  column. The pattern matches at a position where \<^verbatim>\<open>Service\<close> starts and at least one
  more character of the same line follows; the match runs to the end of that line and is
  replaced by \<^verbatim>\<open>Services\<close>; the scan goes on behind the match.
\<close>

function services_sub :: "string \<Rightarrow> string" where
  "services_sub [] = []"
| "services_sub (c # cs) =
     (if take 7 (c # cs) = ''Service'' \<and>
         (case drop 7 (c # cs) of [] \<Rightarrow> False | d # ds \<Rightarrow> d \<noteq> newline)
      then ''Services'' @ services_sub (dropWhile (\<lambda>x. x \<noteq> newline) (drop 7 (c # cs)))
      else c # services_sub cs)"
  by pat_completeness auto
termination
proof (relation "measure length")
  show "wf (measure (length :: string \<Rightarrow> nat))" by simp
next
  fix c :: char and cs :: string
  have "length (dropWhile (\<lambda>x. x \<noteq> newline) (drop 7 (c # cs))) \<le> length (drop 7 (c # cs))"
    by (rule length_dropWhile_le)
  then show "(dropWhile (\<lambda>x. x \<noteq> newline) (drop 7 (c # cs)), c # cs) \<in> measure length"
    by simp
next
  fix c :: char and cs :: string
  show "(cs, c # cs) \<in> measure length" by simp
qed

definition replace_services :: "raw_row list \<Rightarrow> raw_row list" where
  "replace_services df = map (applymap (map_option services_sub)) df"

text \<open>\<^verbatim>\<open>str.strip()\<close>: leading and trailing whitespace removed.\<close>

definition strip :: "string \<Rightarrow> string" where
  "strip s = dropWhile is_space (rev (dropWhile is_space (rev s)))"

text \<open>
  Line 139: \<^verbatim>\<open>df['Project'] = df['Project'].str.strip()\<close>. When the frame has rows and
  no project is a string, \<^verbatim>\<open>.str\<close> raises \<^verbatim>\<open>AttributeError\<close>.
\<close>

definition strip_project :: "raw_row list \<Rightarrow> error + raw_row list" where
  "strip_project df =
     (if df \<noteq> [] \<and> list_all (\<lambda>r. Project r = None) df then Inl AttributeError
      else Inr (map (\<lambda>r. r\<lparr>Project := map_option strip (Project r)\<rparr>) df))"

section \<open>Splitting \<^verbatim>\<open>Mod_No\<close>\<close>

definition sep :: char where
  "sep = CHR ''-''"

text \<open>
  \<^verbatim>\<open>str.split(sep)\<close> with a separator of one character and no limit, which is what
  \<^verbatim>\<open>Series.str.split("-", expand=True)\<close> applies to each string: a split at every
  occurrence.
\<close>

fun split_on :: "char \<Rightarrow> string \<Rightarrow> string list" where
  "split_on d [] = [[]]"
| "split_on d (c # cs) =
     (if c = d then [] # split_on d cs
      else (c # hd (split_on d cs)) # tl (split_on d cs))"

text \<open>
  With \<^verbatim>\<open>expand=True\<close> the parts become the columns 0, 1, ... of a frame \<^verbatim>\<open>new\<close>, as many
  as the longest row has; a missing \<^verbatim>\<open>Mod_No\<close> counts as one (missing) part, and a short
  row is padded with missing cells.
\<close>

definition width :: "string list option \<Rightarrow> nat" where
  "width p = (case p of None \<Rightarrow> 1 | Some ps \<Rightarrow> length ps)"

definition n_columns :: "string list option list \<Rightarrow> nat" where
  "n_columns parts = foldr max (map width parts) 0"

definition new_cell :: "nat \<Rightarrow> string list option \<Rightarrow> cell" where
  "new_cell k p =
     (case p of None \<Rightarrow> None | Some ps \<Rightarrow> if k < length ps then Some (ps ! k) else None)"

text \<open>\<^verbatim>\<open>new[k]\<close>: a column that does not exist raises \<^verbatim>\<open>KeyError\<close>.\<close>

definition new_col :: "nat \<Rightarrow> string list option list \<Rightarrow> error + cell list" where
  "new_col k parts = (if k < n_columns parts then Inr (map (new_cell k) parts) else Inl KeyError)"

definition with_year_id :: "raw_row \<Rightarrow> cell \<Rightarrow> cell \<Rightarrow> mod_row" where
  "with_year_id r y i =
     \<lparr>Area = Area r, Plant = Plant r, Temporary_Mod = Temporary_Mod r, Status = Status r,
      Project = Project r, Mod_Id = i, Mod_Yr = y\<rparr>"

text \<open>
  Lines 142 to 147. When the frame has rows and no \<^verbatim>\<open>Mod_No\<close> is a string, \<^verbatim>\<open>.str\<close>
  raises \<^verbatim>\<open>AttributeError\<close> at line 142.
\<close>

definition split_mod_no :: "raw_row list \<Rightarrow> error + mod_row list" where
  "split_mod_no df =
     (if df \<noteq> [] \<and> list_all (\<lambda>r. Mod_No r = None) df then Inl AttributeError
      else
        (let new = map (\<lambda>r. map_option (split_on sep) (Mod_No r)) df
         in case new_col 0 new of
              Inl e \<Rightarrow> Inl e
            | Inr yrs \<Rightarrow>
                (case new_col 1 new of
                   Inl e \<Rightarrow> Inl e
                 | Inr ids \<Rightarrow>
                     Inr (map (\<lambda>(r, y, i). with_year_id r y i) (zip df (zip yrs ids))))))"

text \<open>Lines 136 to 147: the table every aggregate is computed from.\<close>

definition normalize :: "raw_row list \<Rightarrow> error + mod_row list" where
  "normalize raw =
     bind_err (strip_project (replace_services (drop_cancelled (project_cleanup raw))))
       split_mod_no"

section \<open>Count tables\<close>

text \<open>
  \<^verbatim>\<open>df.value_counts(column)\<close> groups the rows by the column, drops the rows whose key is
  missing, and lists each key with its number of rows, the largest count first. The
  grouping lists the keys in ascending order; pandas does not fix the order among equal
  counts, and the model takes the reverse of a stable ascending sort for it.
\<close>

definition present :: "('r \<Rightarrow> cell) \<Rightarrow> 'r list \<Rightarrow> string list" where
  "present col df = List.map_filter col df"

definition group_sizes :: "string list \<Rightarrow> (string \<times> nat) list" where
  "group_sizes vals = map (\<lambda>k. (k, count_list vals k)) (sort (remdups vals))"

definition sort_values_desc :: "(string \<times> nat) list \<Rightarrow> (string \<times> nat) list" where
  "sort_values_desc t = rev (sort_key snd t)"

definition value_counts :: "('r \<Rightarrow> cell) \<Rightarrow> 'r list \<Rightarrow> (string \<times> nat) list" where
  "value_counts col df = sort_values_desc (group_sizes (present col df))"

text \<open>\<^verbatim>\<open>sort_index()\<close> of a count table: ascending keys.\<close>

definition sort_index :: "(string \<times> nat) list \<Rightarrow> (string \<times> nat) list" where
  "sort_index t = sort_key fst t"

text \<open>Line 155: \<^verbatim>\<open>counts = df.value_counts('Area')\<close>.\<close>

definition counts :: "mod_row list \<Rightarrow> (string \<times> nat) list" where
  "counts df = value_counts Area df"

section \<open>The year by area frame \<^verbatim>\<open>cdf\<close>\<close>

text \<open>
  A value of \<^verbatim>\<open>cdf\<close> is a year string, a number or the missing number. Counts are whole
  numbers and percentages are floats in the script; both are exact rationals here, so
  rounding is not modelled. A frame is its columns in order, each with one value per row.
\<close>

datatype val = Str string | Num rat | NaN

type_synonym frame = "(string \<times> val list) list"

text \<open>A list comprehension whose element expression may raise: the first error wins.\<close>

fun map_err :: "('a \<Rightarrow> error + 'b) \<Rightarrow> 'a list \<Rightarrow> error + 'b list" where
  "map_err f [] = Inr []"
| "map_err f (x # xs) = bind_err (f x) (\<lambda>y. bind_err (map_err f xs) (\<lambda>ys. Inr (y # ys)))"

definition nrows :: "frame \<Rightarrow> nat" where
  "nrows f = (case f of [] \<Rightarrow> 0 | (name, col) # rest \<Rightarrow> length col)"

text \<open>
  \<^verbatim>\<open>cdf[name] = values\<close> with a list: the list must have one value per row, or pandas
  raises \<^verbatim>\<open>ValueError\<close>; an existing column is overwritten in place, a new one is appended.
\<close>

definition set_column :: "string \<Rightarrow> val list \<Rightarrow> frame \<Rightarrow> error + frame" where
  "set_column name vs f =
     (if f = [] \<or> length vs = nrows f then Inr (AList.update name vs f) else Inl ValueError)"

text \<open>\<^verbatim>\<open>cdf[name]\<close>: a column that does not exist raises \<^verbatim>\<open>KeyError\<close>.\<close>

definition get_column :: "string \<Rightarrow> frame \<Rightarrow> error + val list" where
  "get_column name f = (case map_of f name of None \<Rightarrow> Inl KeyError | Some vs \<Rightarrow> Inr vs)"

text \<open>
  \<^verbatim>\<open>cdf.reindex(columns=titles)\<close>: exactly the listed columns, in that order; a listed
  column the frame does not have is filled with missing numbers, every other column is
  dropped.
\<close>

definition reindex :: "string list \<Rightarrow> frame \<Rightarrow> frame" where
  "reindex titles f =
     map (\<lambda>t. (t, case map_of f t of None \<Rightarrow> replicate (nrows f) NaN | Some vs \<Rightarrow> vs)) titles"

text \<open>
  Lines 163 and 164: \<^verbatim>\<open>dfl = df[df.Area == item]\<close> and the list
  \<^verbatim>\<open>dfl.value_counts('Mod_Yr').sort_index().tolist()\<close>: the counts of the years that occur
  in the area, in ascending order of the year.
\<close>

definition area_column :: "mod_row list \<Rightarrow> string \<Rightarrow> val list" where
  "area_column df item =
     map (\<lambda>(y, n). Num (of_nat n))
       (sort_index (value_counts Mod_Yr (filter (\<lambda>r. Area r = Some item) df)))"

text \<open>Lines 161 to 164, the loop over \<^verbatim>\<open>counts.index\<close>.\<close>

fun fill_areas :: "mod_row list \<Rightarrow> string list \<Rightarrow> frame \<Rightarrow> error + frame" where
  "fill_areas df [] f = Inr f"
| "fill_areas df (item # items) f =
     (if (item \<noteq> ''Services'' \<and> \<not> PLOT_SERVICES) \<or> PLOT_SERVICES
      then bind_err (set_column item (area_column df item) f) (\<lambda>f'. fill_areas df items f')
      else fill_areas df items f)"

definition column_titles :: "string list" where
  "column_titles = [''Methacrylates'', ''Cyanides'', ''MM8'']"

text \<open>
  Lines 160 to 172. The frame starts as the one column \<^verbatim>\<open>Mod_Yr\<close> holding the index of
  \<^verbatim>\<open>df.value_counts('Mod_Yr')\<close>, that is the years in descending order of their counts.
\<close>

definition cdf :: "mod_row list \<Rightarrow> error + frame" where
  "cdf df =
     (let f0 = [(''Mod_Yr'', map (\<lambda>(y, n). Str y) (value_counts Mod_Yr df))]
      in bind_err (fill_areas df (map fst (counts df)) f0)
           (\<lambda>f. Inr (reindex column_titles f)))"

section \<open>Percentages\<close>

text \<open>\<^verbatim>\<open>i + j\<close> on two values of the frame.\<close>

fun add_val :: "val \<Rightarrow> val \<Rightarrow> error + val" where
  "add_val (Num a) (Num b) = Inr (Num (a + b))"
| "add_val (Num a) NaN = Inr NaN"
| "add_val NaN (Num b) = Inr NaN"
| "add_val NaN NaN = Inr NaN"
| "add_val (Str s) (Str t) = Inr (Str (s @ t))"
| "add_val (Str s) v = Inl TypeError"
| "add_val v (Str t) = Inl TypeError"

text \<open>\<^verbatim>\<open>i / j * 100\<close> on two values of the frame; Python raises on a zero divisor.\<close>

fun pct :: "val \<Rightarrow> val \<Rightarrow> error + val" where
  "pct (Str s) j = Inl TypeError"
| "pct i (Str t) = Inl TypeError"
| "pct i (Num b) =
     (if b = 0 then Inl ZeroDivisionError
      else (case i of Num a \<Rightarrow> Inr (Num (a / b * 100)) | _ \<Rightarrow> Inr NaN))"
| "pct i NaN = Inr NaN"

text \<open>Line 180.\<close>

definition totals :: "frame \<Rightarrow> error + val list" where
  "totals f =
     bind_err (get_column ''MM8'' f) (\<lambda>mm8.
     bind_err (get_column ''Methacrylates'' f) (\<lambda>meth.
     bind_err (get_column ''Cyanides'' f) (\<lambda>cyan.
       map_err (\<lambda>(i, j, k). bind_err (add_val i j) (\<lambda>ij. add_val ij k))
         (zip mm8 (zip meth cyan)))))"

text \<open>Lines 181 to 183, the loop over \<^verbatim>\<open>counts.index\<close>.\<close>

fun normalise_areas :: "val list \<Rightarrow> string list \<Rightarrow> frame \<Rightarrow> error + frame" where
  "normalise_areas tot [] f = Inr f"
| "normalise_areas tot (item # items) f =
     (if item \<noteq> ''Services''
      then bind_err (get_column item f) (\<lambda>col.
           bind_err (map_err (\<lambda>(i, j). pct i j) (zip col tot)) (\<lambda>new.
           bind_err (set_column item new f) (\<lambda>f'. normalise_areas tot items f')))
      else normalise_areas tot items f)"

text \<open>Lines 160 to 183: the frame the normalised chart is drawn from.\<close>

definition cdf_percent :: "mod_row list \<Rightarrow> error + frame" where
  "cdf_percent df =
     bind_err (cdf df) (\<lambda>f.
     bind_err (totals f) (\<lambda>tot. normalise_areas tot (map fst (counts df)) f))"

section \<open>Projects\<close>

text \<open>Line 195: \<^verbatim>\<open>dfp = df.value_counts('Project')\<close>.\<close>

definition dfp :: "mod_row list \<Rightarrow> (string \<times> nat) list" where
  "dfp df = value_counts Project df"

text \<open>Line 196, the three numbers printed: \<^verbatim>\<open>dfp.sum()\<close>, \<^verbatim>\<open>len(dfp.index)\<close>, \<^verbatim>\<open>len(df.index)\<close>.\<close>

definition project_summary :: "mod_row list \<Rightarrow> nat \<times> nat \<times> nat" where
  "project_summary df = (sum_list (map snd (dfp df)), length (dfp df), length df)"

text \<open>
  Lines 136 to 196 in sequence, the plots aside: the three numbers that line 196 prints,
  unless an exception ends the run before that line.
\<close>

definition printed_summary :: "raw_row list \<Rightarrow> error + nat \<times> nat \<times> nat" where
  "printed_summary raw =
     bind_err (normalize raw) (\<lambda>df. bind_err (cdf_percent df) (\<lambda>f. Inr (project_summary df)))"

text \<open>Line 197: \<^verbatim>\<open>dfp = dfp[dfp > PROJECT_THRESHOLD]\<close>.\<close>

definition dfp_shown :: "mod_row list \<Rightarrow> (string \<times> nat) list" where
  "dfp_shown df = filter (\<lambda>(p, n). n > PROJECT_THRESHOLD) (dfp df)"

text \<open>\<^verbatim>\<open>Series.max()\<close> of a count table.\<close>

definition max_count :: "(string \<times> nat) list \<Rightarrow> nat" where
  "max_count t = foldr max (map snd t) 0"

text \<open>
  \<^verbatim>\<open>Series.idxmax()\<close>: the key of the first row that holds the maximum; on an empty table
  it raises \<^verbatim>\<open>ValueError\<close>.
\<close>

definition idxmax :: "(string \<times> nat) list \<Rightarrow> error + string" where
  "idxmax t =
     (case List.find (\<lambda>(p, n). n = max_count t) t of
        None \<Rightarrow> Inl ValueError
      | Some (p, n) \<Rightarrow> Inr p)"

text \<open>
  Lines 204 and 205: the arguments \<^verbatim>\<open>dfp.idxmax()\<close> and \<^verbatim>\<open>dfp.max()\<close> of the summary, taken
  from the table of line 197.
\<close>

definition largest_project :: "mod_row list \<Rightarrow> error + string \<times> nat" where
  "largest_project df =
     (let t = dfp_shown df in bind_err (idxmax t) (\<lambda>p. Inr (p, max_count t)))"

section \<open>Auxiliary definitions for the statements\<close>

text \<open>The six replacements of lines 118 to 123, in their order, on one cell.\<close>

definition clean_cell :: "cell \<Rightarrow> cell" where
  "clean_cell c =
     replace_regex_cell nonword_regex (replace_regex_cell dashes_regex
       (replace_regex_cell zeros_regex (replace_regex_cell blank_regex
         (replace_values_cell placeholders (replace_regex_cell na_regex c)))))"

text \<open>A string that one of the six replacements of \<^verbatim>\<open>project_cleanup\<close> turns into a missing cell.\<close>

definition matches_any :: "string \<Rightarrow> bool" where
  "matches_any s =
     (na_regex s \<or> s \<in> set placeholders \<or> blank_regex s \<or> zeros_regex s \<or> dashes_regex s \<or>
      nonword_regex s)"

text \<open>The parts of the \<^verbatim>\<open>Mod_No\<close> of one row, as \<^verbatim>\<open>split_mod_no\<close> computes them.\<close>

abbreviation parts :: "raw_row \<Rightarrow> string list option" where
  "parts r \<equiv> map_option (split_on sep) (Mod_No r)"

text \<open>
  The words of the specification, for comparison with the code: the letter n, in either
  case, with the letter a, in either case, somewhere behind it.
\<close>

fun spec_n_before_a :: "string \<Rightarrow> bool" where
  "spec_n_before_a [] = False"
| "spec_n_before_a (c # cs) =
     (((c = CHR ''n'' \<or> c = CHR ''N'') \<and> (\<exists>d\<in>set cs. d = CHR ''a'' \<or> d = CHR ''A'')) \<or>
      spec_n_before_a cs)"







text \<open>
  The count a cell of the year by area matrix stands for in the specification: the
  number of records of that year and that area.
\<close>

definition spec_cell_count :: "mod_row list \<Rightarrow> string \<Rightarrow> string \<Rightarrow> nat" where
  "spec_cell_count df y a = length (filter (\<lambda>r. Mod_Yr r = Some y \<and> Area r = Some a) df)"

section \<open>Sample tables\<close>

definition sample_row :: "string \<Rightarrow> string \<Rightarrow> string \<Rightarrow> string \<Rightarrow> raw_row" where
  "sample_row code area status project =
     \<lparr>Area = Some area, Plant = Some ''HCN6'', Temporary_Mod = Some ''No'',
      Status = Some status, Project = Some project, Mod_No = Some code\<rparr>"

text \<open>
  The first scenario of the specification. \<^verbatim>\<open>read_csv\<close> reads the project \<^verbatim>\<open>N/A\<close> of its
  second row as a missing cell.
\<close>

definition scenario :: "raw_row list" where
  "scenario =
     [\<lparr>Area = Some ''Cyanides'', Plant = Some ''CYN1'', Temporary_Mod = Some ''No'',
       Status = Some ''Active'', Project = Some ''5228285'', Mod_No = Some ''2019-0001''\<rparr>,
      \<lparr>Area = Some ''Cyanides'', Plant = Some ''CYN1'', Temporary_Mod = Some ''No'',
       Status = Some ''Cancelled'', Project = None, Mod_No = Some ''2019-0002''\<rparr>,
      \<lparr>Area = Some ''MM8'', Plant = Some ''ACH8'', Temporary_Mod = Some ''No'',
       Status = Some ''Active'', Project = Some ''   '', Mod_No = Some ''2020-0001''\<rparr>]"

definition scenario_normalized :: "mod_row list" where
  "scenario_normalized =
     [\<lparr>Area = Some ''Cyanides'', Plant = Some ''CYN1'', Temporary_Mod = Some ''No'',
       Status = Some ''Active'', Project = Some ''5228285'', Mod_Id = Some ''0001'',
       Mod_Yr = Some ''2019''\<rparr>,
      \<lparr>Area = Some ''MM8'', Plant = Some ''ACH8'', Temporary_Mod = Some ''No'',
       Status = Some ''Active'', Project = None, Mod_Id = Some ''0001'',
       Mod_Yr = Some ''2020''\<rparr>]"

text \<open>Six rows of one project.\<close>

definition six_mods :: "mod_row list" where
  "six_mods =
     replicate 6 (with_year_id (sample_row ''2019-0001'' ''MM8'' ''Active'' ''5228285'')
       (Some ''2019'') (Some ''0001''))"

text \<open>
  Rows with the project 5228285, as read from the file and as split.
\<close>

definition active :: "string \<Rightarrow> string \<Rightarrow> raw_row" where
  "active code area = sample_row code area ''Active'' ''5228285''"

definition parsed :: "string \<Rightarrow> string \<Rightarrow> string \<Rightarrow> mod_row" where
  "parsed yr ident area =
     \<lparr>Area = Some area, Plant = Some ''HCN6'', Temporary_Mod = Some ''No'',
      Status = Some ''Active'', Project = Some ''5228285'', Mod_Id = Some ident,
      Mod_Yr = Some yr\<rparr>"

text \<open>
  One year with one record in each of the three fixed areas; the project of the third
  record is the parameter. The second table is the first one normalized, for a project
  that comes out as the cell given.
\<close>

definition one_year :: "string \<Rightarrow> raw_row list" where
  "one_year project =
     [active ''2019-0001'' ''Cyanides'', active ''2019-0002'' ''Methacrylates'',
      sample_row ''2019-0003'' ''MM8'' ''Active'' project]"

definition one_year_normalized :: "cell \<Rightarrow> mod_row list" where
  "one_year_normalized project =
     [parsed ''2019'' ''0001'' ''Cyanides'', parsed ''2019'' ''0002'' ''Methacrylates'',
      (parsed ''2019'' ''0003'' ''MM8'')\<lparr>Project := project\<rparr>]"




section \<open>Facts about the cleanup\<close>

lemma bind_err_Inr:
  "bind_err m f = Inr y \<longleftrightarrow> (\<exists>x. m = Inr x \<and> f x = Inr y)"
  by (cases m) simp_all


lemma applymap_applymap: "applymap f (applymap g r) = applymap (\<lambda>c. f (g c)) r"
  by (simp add: applymap_def)

lemma project_cleanup_eq:
  "project_cleanup df =
     filter (\<lambda>r. cell_ne (Project r) (Mod_No r)) (map (applymap clean_cell) df)"
proof -
  have "applymap clean_cell = (\<lambda>r. applymap (replace_regex_cell nonword_regex)
      (applymap (replace_regex_cell dashes_regex) (applymap (replace_regex_cell zeros_regex)
      (applymap (replace_regex_cell blank_regex) (applymap (replace_values_cell placeholders)
      (applymap (replace_regex_cell na_regex) r))))))"
    by (rule ext) (simp add: applymap_applymap applymap_def clean_cell_def)
  then show ?thesis
    by (simp add: project_cleanup_def replace_regex_def replace_values_def Let_def comp_def)
qed

lemma clean_cell_None [simp]: "clean_cell None = None"
  by (simp add: clean_cell_def replace_regex_cell_def replace_values_cell_def)

lemma clean_cell_Some: "clean_cell (Some s) = (if matches_any s then None else Some s)"
  by (simp add: clean_cell_def matches_any_def replace_regex_cell_def replace_values_cell_def)

lemma clean_cell_eq_Some: "clean_cell c = Some s \<longleftrightarrow> c = Some s \<and> \<not> matches_any s"
  by (cases c) (auto simp: clean_cell_Some)

lemma Cancelled_no_match: "\<not> matches_any ''Cancelled''"
  by (simp add: matches_any_def na_regex_def placeholders_def blank_regex_def zeros_regex_def
      dashes_regex_def nonword_regex_def at_end_def is_space_def newline_def)

lemma cell_ne_Some: "cell_ne c (Some s) \<longleftrightarrow> c \<noteq> Some s"
  by (cases c) (auto simp: cell_ne_def)

lemma applymap_fields [simp]:
  "Area (applymap f r) = f (Area r)" "Plant (applymap f r) = f (Plant r)"
  "Temporary_Mod (applymap f r) = f (Temporary_Mod r)" "Status (applymap f r) = f (Status r)"
  "Project (applymap f r) = f (Project r)" "Mod_No (applymap f r) = f (Mod_No r)"
  by (simp_all add: applymap_def)

lemma clean_Status_Cancelled:
  "Status (applymap clean_cell r) = Some ''Cancelled'' \<longleftrightarrow> Status r = Some ''Cancelled''"
  by (simp add: clean_cell_eq_Some Cancelled_no_match)

lemma filter_map_swap: "filter P (map f xs) = map f (filter (\<lambda>x. P (f x)) xs)"
  by (induction xs) simp_all

lemma drop_cancelled_cleanup:
  "drop_cancelled (project_cleanup raw) =
     filter (\<lambda>r. cell_ne (Project r) (Mod_No r))
       (map (applymap clean_cell) (filter (\<lambda>r. Status r \<noteq> Some ''Cancelled'') raw))"
proof -
  have "drop_cancelled (project_cleanup raw) =
      filter (\<lambda>r. cell_ne (Project r) (Mod_No r))
        (filter (\<lambda>r. Status r \<noteq> Some ''Cancelled'') (map (applymap clean_cell) raw))"
    by (simp add: drop_cancelled_def project_cleanup_eq cell_ne_Some conj_commute)
  also have "filter (\<lambda>r. Status r \<noteq> Some ''Cancelled'') (map (applymap clean_cell) raw) =
      map (applymap clean_cell) (filter (\<lambda>r. Status r \<noteq> Some ''Cancelled'') raw)"
    by (simp only: filter_map_swap clean_Status_Cancelled)
  finally show ?thesis .
qed

lemma drop_cancelled_idem:
  "drop_cancelled (project_cleanup (filter (\<lambda>r. Status r \<noteq> Some ''Cancelled'') raw)) =
   drop_cancelled (project_cleanup raw)"
  by (simp add: drop_cancelled_cleanup)

lemma services_sub_cases: "services_sub s = s \<or> CHR ''v'' \<in> set (services_sub s)"
  by (induction s rule: services_sub.induct) auto

lemma services_sub_Cancelled: "services_sub s = ''Cancelled'' \<Longrightarrow> s = ''Cancelled''"
  using services_sub_cases [of s] by auto


lemma dot_star_a_elim: "dot_star_a cs \<Longrightarrow> \<exists>d\<in>set cs. d = CHR ''a'' \<or> d = CHR ''A''"
  by (induction cs) auto

lemma na_regex_n_before_a: "na_regex s \<Longrightarrow> spec_n_before_a s"
  by (cases s) (auto simp: na_regex_def dest: dot_star_a_elim)



section \<open>Facts about the split\<close>

lemma split_on_not_Nil [simp]: "split_on d s \<noteq> []"
  by (induction s) simp_all

lemma split_on_hd: "hd (split_on d s) = takeWhile (\<lambda>c. c \<noteq> d) s"
  by (induction s) simp_all

lemma split_on_tl:
  "tl (split_on d s) =
     (if d \<in> set s then split_on d (tl (dropWhile (\<lambda>c. c \<noteq> d) s)) else [])"
  by (induction s) auto

lemma split_on_length: "length (split_on d s) = Suc (count_list s d)"
  by (induction s) (auto simp: Suc_pred' length_greater_0_conv)

lemma split_on_nth0: "split_on d s ! 0 = takeWhile (\<lambda>c. c \<noteq> d) s"
  using split_on_hd [of d s] by (simp add: hd_conv_nth)

lemma split_on_nth1:
  assumes "d \<in> set s"
  shows "split_on d s ! Suc 0 = takeWhile (\<lambda>c. c \<noteq> d) (tl (dropWhile (\<lambda>c. c \<noteq> d) s))"
proof -
  have "split_on d s ! Suc 0 = tl (split_on d s) ! 0"
    by (cases "split_on d s") simp_all
  also have "\<dots> = split_on d (tl (dropWhile (\<lambda>c. c \<noteq> d) s)) ! 0"
    using assms by (simp add: split_on_tl)
  finally show ?thesis by (simp add: split_on_nth0)
qed

lemma count_list_0_iff_notin: "count_list s d = 0 \<longleftrightarrow> d \<notin> set s"
  by (induction s) auto

lemma count_one_rest:
  "count_list s d = 1 \<Longrightarrow> d \<notin> set (tl (dropWhile (\<lambda>c. c \<noteq> d) s))"
  by (induction s) (auto simp: count_list_0_iff_notin split: if_splits)

lemma take_drop_sep:
  "d \<in> set s \<Longrightarrow>
   takeWhile (\<lambda>c. c \<noteq> d) s @ d # tl (dropWhile (\<lambda>c. c \<noteq> d) s) = s"
  by (induction s) auto

lemma width_le_n_columns: "p \<in> set ps \<Longrightarrow> width p \<le> n_columns ps"
  by (induction ps) (auto simp: n_columns_def)

lemma split_mod_no_Inr:
  "split_mod_no df = Inr df' \<Longrightarrow>
   df' = map (\<lambda>r. with_year_id r (new_cell 0 (parts r)) (new_cell 1 (parts r))) df"
  by (auto simp: split_mod_no_def new_col_def Let_def zip_map2 zip_map1 comp_def
      map_zip_map2 zip_same_conv_map split: if_splits)

lemma split_mod_no_ok:
  "1 < n_columns (map parts df) \<Longrightarrow> \<exists>r\<in>set df. Mod_No r \<noteq> None \<Longrightarrow>
   split_mod_no df =
     Inr (map (\<lambda>r. with_year_id r (new_cell 0 (parts r)) (new_cell 1 (parts r))) df)"
  by (auto simp: split_mod_no_def new_col_def Let_def zip_map2 zip_map1 comp_def
      map_zip_map2 zip_same_conv_map list_all_iff split: if_splits)

lemma with_year_id_fields [simp]:
  "Area (with_year_id r y i) = Area r" "Plant (with_year_id r y i) = Plant r"
  "Temporary_Mod (with_year_id r y i) = Temporary_Mod r" "Status (with_year_id r y i) = Status r"
  "Project (with_year_id r y i) = Project r" "Mod_Yr (with_year_id r y i) = y"
  "Mod_Id (with_year_id r y i) = i"
  by (simp_all add: with_year_id_def)

lemma nth_split_mod_no:
  assumes "split_mod_no df = Inr df'" "i < length df"
  shows "df' ! i = with_year_id (df ! i) (new_cell 0 (parts (df ! i))) (new_cell 1 (parts (df ! i)))"
  using split_mod_no_Inr [OF assms(1)] assms(2) by simp

lemma split_row_fields:
  assumes "split_mod_no df = Inr df'" "i < length df" "Mod_No (df ! i) = Some s"
  shows "Mod_Yr (df' ! i) = Some (takeWhile (\<lambda>c. c \<noteq> sep) s) \<and>
         Mod_Id (df' ! i) =
           (if sep \<in> set s
            then Some (takeWhile (\<lambda>c. c \<noteq> sep) (tl (dropWhile (\<lambda>c. c \<noteq> sep) s)))
            else None)"
proof -
  have row: "df' ! i = with_year_id (df ! i) (new_cell 0 (Some (split_on sep s)))
      (new_cell (Suc 0) (Some (split_on sep s)))"
    using nth_split_mod_no [OF assms(1,2)] assms(3) by simp
  have yr: "new_cell 0 (Some (split_on sep s)) = Some (takeWhile (\<lambda>c. c \<noteq> sep) s)"
    by (simp add: new_cell_def split_on_nth0)
  have len: "Suc 0 < length (split_on sep s) \<longleftrightarrow> sep \<in> set s"
    using count_list_0_iff_notin [of s sep] by (auto simp: split_on_length)
  have id: "new_cell (Suc 0) (Some (split_on sep s)) =
      (if sep \<in> set s
       then Some (takeWhile (\<lambda>c. c \<noteq> sep) (tl (dropWhile (\<lambda>c. c \<noteq> sep) s)))
       else None)"
  proof (cases "sep \<in> set s")
    case True
    then show ?thesis using len by (simp add: new_cell_def split_on_nth1)
  next
    case False
    then show ?thesis using len by (simp add: new_cell_def)
  qed
  show ?thesis by (simp only: row yr id with_year_id_fields simp_thms)
qed

section \<open>Facts about the formatted table\<close>

lemma strip_project_Inr:
  "strip_project df = Inr df' \<Longrightarrow>
   df' = map (\<lambda>r. r\<lparr>Project := map_option strip (Project r)\<rparr>) df"
  by (simp add: strip_project_def split: if_splits)

lemma formatted_rows:
  assumes "strip_project (replace_services (drop_cancelled (project_cleanup raw))) = Inr df1"
  shows "df1 =
     map (\<lambda>r. (applymap (map_option services_sub) (applymap clean_cell r))
                \<lparr>Project := map_option strip (map_option services_sub (clean_cell (Project r)))\<rparr>)
       (filter (\<lambda>r. Status r \<noteq> Some ''Cancelled'' \<and>
                    cell_ne (clean_cell (Project r)) (clean_cell (Mod_No r))) raw)"
  unfolding strip_project_Inr [OF assms]
  by (simp add: replace_services_def drop_cancelled_cleanup filter_map_swap comp_def)

lemma normalize_Inr:
  assumes "normalize raw = Inr df"
  shows "df = map (\<lambda>r. with_year_id r (new_cell 0 (parts r)) (new_cell 1 (parts r)))
           (map (\<lambda>r. (applymap (map_option services_sub) (applymap clean_cell r))
                \<lparr>Project := map_option strip (map_option services_sub (clean_cell (Project r)))\<rparr>)
             (filter (\<lambda>r. Status r \<noteq> Some ''Cancelled'' \<and>
                    cell_ne (clean_cell (Project r)) (clean_cell (Mod_No r))) raw))"
proof -
  from assms obtain df1 where
    one: "strip_project (replace_services (drop_cancelled (project_cleanup raw))) = Inr df1" and
    two: "split_mod_no df1 = Inr df"
    unfolding normalize_def by (auto simp: bind_err_Inr)
  show ?thesis
    using split_mod_no_Inr [OF two] unfolding formatted_rows [OF one] .
qed

lemma normalize_Status:
  assumes "normalize raw = Inr df"
  shows "map Status df =
     map (\<lambda>r. map_option services_sub (clean_cell (Status r)))
       (filter (\<lambda>r. Status r \<noteq> Some ''Cancelled'' \<and>
                    cell_ne (clean_cell (Project r)) (clean_cell (Mod_No r))) raw)"
  by (simp add: normalize_Inr [OF assms] comp_def)

lemma normalize_Project:
  assumes "normalize raw = Inr df"
  shows "map Project df =
     map (\<lambda>r. map_option strip (map_option services_sub (clean_cell (Project r))))
       (filter (\<lambda>r. Status r \<noteq> Some ''Cancelled'' \<and>
                    cell_ne (clean_cell (Project r)) (clean_cell (Mod_No r))) raw)"
  by (simp add: normalize_Inr [OF assms] comp_def)

lemma final_status_not_Cancelled:
  assumes "Status r \<noteq> Some ''Cancelled''"
  shows "map_option services_sub (clean_cell (Status r)) \<noteq> Some ''Cancelled''"
proof
  assume "map_option services_sub (clean_cell (Status r)) = Some ''Cancelled''"
  then obtain s where s: "clean_cell (Status r) = Some s" "services_sub s = ''Cancelled''"
    by auto
  from s(2) have "s = ''Cancelled''" by (rule services_sub_Cancelled)
  with s(1) have "Status r = Some ''Cancelled''" by (simp add: clean_cell_eq_Some)
  with assms show False by simp
qed

lemma normalize_scenario: "normalize scenario = Inr scenario_normalized"
  by code_simp

lemma normalize_padded:
  "normalize [sample_row ''2020-0001'' ''MM8'' ''Active'' '' TBC''] =
     Inr [with_year_id (sample_row ''2020-0001'' ''MM8'' ''Active'' ''TBC'')
            (Some ''2020'') (Some ''0001'')]"
  by code_simp

section \<open>Facts about the count tables\<close>

lemma sum_list_insort_key:
  fixes g :: "'a \<Rightarrow> nat"
  shows "sum_list (map g (insort_key f x xs)) = g x + sum_list (map g xs)"
  by (induction xs) simp_all

lemma sum_list_sort_key:
  fixes g :: "'a \<Rightarrow> nat"
  shows "sum_list (map g (sort_key f xs)) = sum_list (map g xs)"
  by (induction xs) (simp_all add: sum_list_insort_key)

lemma sum_count_remdups: "sum_list (map (count_list xs) (remdups xs)) = length xs"
proof -
  have "sum_list (map (count_list xs) (remdups xs)) = sum (count_list xs) (set (remdups xs))"
    by (rule sum_list_distinct_conv_sum_set) simp
  also have "\<dots> = length xs"
    by (simp add: sum_count_set)
  finally show ?thesis .
qed

lemma sum_group_sizes: "sum_list (map snd (group_sizes vals)) = length vals"
proof -
  have "sum_list (map snd (group_sizes vals)) =
      sum_list (map (count_list vals) (sort_key (\<lambda>x. x) (remdups vals)))"
    by (simp add: group_sizes_def comp_def)
  also have "\<dots> = sum_list (map (count_list vals) (remdups vals))"
    by (rule sum_list_sort_key)
  finally show ?thesis by (simp add: sum_count_remdups)
qed

lemma length_present: "length (present col df) = length (filter (\<lambda>r. col r \<noteq> None) df)"
  by (simp add: present_def map_filter_def)

lemma sum_value_counts:
  "sum_list (map snd (value_counts col df)) = length (filter (\<lambda>r. col r \<noteq> None) df)"
proof -
  have "sum_list (map snd (value_counts col df)) =
      sum_list (map snd (sort_key snd (group_sizes (present col df))))"
    by (simp add: value_counts_def sort_values_desc_def rev_map [symmetric])
  also have "\<dots> = sum_list (map snd (group_sizes (present col df)))"
    by (rule sum_list_sort_key)
  finally show ?thesis by (simp add: sum_group_sizes length_present)
qed









lemma le_foldr_max: "x \<in> set xs \<Longrightarrow> x \<le> foldr max xs (0::nat)"
  by (induction xs) auto

lemma foldr_max_mem: "xs \<noteq> [] \<Longrightarrow> 0 \<notin> set xs \<Longrightarrow> foldr max xs (0::nat) \<in> set xs"
proof (induction xs)
  case Nil
  then show ?case by simp
next
  case (Cons x xs)
  show ?case
  proof (cases "xs = []")
    case True
    then show ?thesis by simp
  next
    case False
    with Cons have "foldr max xs 0 \<in> set xs" by simp
    then show ?thesis
      by (cases "x \<le> foldr max xs 0") (simp_all add: max_absorb1 max_absorb2)
  qed
qed

lemma le_max_count: "(p, n) \<in> set t \<Longrightarrow> n \<le> max_count t"
  unfolding max_count_def by (rule le_foldr_max) force

lemma idxmax_Nil: "idxmax [] = Inl ValueError"
  by (simp add: idxmax_def)

lemma idxmax_nonempty:
  assumes "t \<noteq> []" "\<forall>(p, n)\<in>set t. 0 < n"
  shows "\<exists>p. idxmax t = Inr p \<and> (p, max_count t) \<in> set t"
proof -
  have "0 \<notin> set (map snd t)" using assms(2) by force
  with assms(1) have "max_count t \<in> set (map snd t)"
    unfolding max_count_def by (intro foldr_max_mem) simp_all
  then obtain p where "(p, max_count t) \<in> set t" by auto
  then have "\<exists>x\<in>set t. (\<lambda>(p, n). n = max_count t) x" by force
  then obtain q m where f: "List.find (\<lambda>(p, n). n = max_count t) t = Some (q, m)"
    by (cases "List.find (\<lambda>(p, n). n = max_count t) t") (auto simp: find_None_iff)
  then obtain i where "i < length t" "t ! i = (q, m)" "m = max_count t"
    by (auto simp: find_Some_iff)
  then have "(q, m) \<in> set t \<and> m = max_count t"
    using nth_mem [of i t] by simp
  with f show ?thesis by (auto simp: idxmax_def)
qed

lemma dfp_scenario: "dfp scenario_normalized = [(''5228285'', 1)]"
  by code_simp

lemma dfp_six_mods: "dfp six_mods = [(''5228285'', 6)]"
  by code_simp

section \<open>Facts about the year by area frame\<close>


lemma update_not_Nil [simp]: "AList.update k v al \<noteq> []"
  by (cases al) auto
































section \<open>The claims about the normalizer\<close>

text \<open>
  Claim C1 at a table the code does not handle as the claim says. The project \<^verbatim>\<open>xna\<close>
  has three characters, an n and an a behind it; the header of the script (lines 33 to
  38) says that such an entry is replaced. \<^verbatim>\<open>na_regex\<close> looks for the n at the start of
  the cell only, so the record keeps its project, \<^verbatim>\<open>xna\<close> is counted as a project, and
  line 196 prints 3 modifications related to 2 projects out of 3.
\<close>

theorem na_regex_keeps_xna:
  "length ''xna'' \<le> 4 \<and> spec_n_before_a ''xna'' \<and>
   normalize (one_year ''xna'') = Inr (one_year_normalized (Some ''xna'')) \<and>
   dfp (one_year_normalized (Some ''xna'')) = [(''5228285'', 2), (''xna'', 1)] \<and>
   printed_summary (one_year ''xna'') = Inr (3, 2, 3)"
  by code_simp

text \<open>
  Claim C5, amended. The patterns are matched on the raw project value, and the
  whitespace is stripped afterwards (line 139 runs after line 136): on the rows that
  survive, the project is missing when the raw value matches one of the patterns, and is
  otherwise the raw value after the rewrite of line 138, stripped. A padded value is
  classified only if the padded value itself matches.
\<close>

theorem strip_after_classification:
  assumes "normalize raw = Inr df"
  shows "map Project df =
     map (\<lambda>r. case Project r of
                None \<Rightarrow> None
              | Some s \<Rightarrow> if matches_any s then None else Some (strip (services_sub s)))
       (filter (\<lambda>r. Status r \<noteq> Some ''Cancelled'' \<and>
                    cell_ne (clean_cell (Project r)) (clean_cell (Mod_No r))) raw)"
proof -
  have "(\<lambda>r::raw_row. map_option strip (map_option services_sub (clean_cell (Project r)))) =
      (\<lambda>r. case Project r of
                None \<Rightarrow> None
              | Some s \<Rightarrow> if matches_any s then None else Some (strip (services_sub s)))"
    by (rule ext) (simp add: clean_cell_Some split: option.splits)
  then show ?thesis
    using normalize_Project [OF assms] by simp
qed

theorem strip_after_classification_witness:
  "map (\<lambda>r. case Project r of
                None \<Rightarrow> None
              | Some s \<Rightarrow> if matches_any s then None else Some (strip (services_sub s)))
       (filter (\<lambda>r. Status r \<noteq> Some ''Cancelled'' \<and>
                    cell_ne (clean_cell (Project r)) (clean_cell (Mod_No r)))
          [sample_row ''2020-0001'' ''MM8'' ''Active'' '' TBC'']) = [Some ''TBC'']"
  using strip_after_classification [OF normalize_padded] by (simp add: sample_row_def)

text \<open>
  Claim C5 as stated fails at the project \<^verbatim>\<open>" TBC"\<close>: stripped it is the placeholder
  \<^verbatim>\<open>TBC\<close>, and the record comes out with the project \<^verbatim>\<open>TBC\<close>, not with a missing one.
\<close>

theorem strip_before_matching_counterexample:
  "strip '' TBC'' \<in> set placeholders \<and>
   normalize [sample_row ''2020-0001'' ''MM8'' ''Active'' '' TBC''] =
     Inr [with_year_id (sample_row ''2020-0001'' ''MM8'' ''Active'' ''TBC'')
            (Some ''2020'') (Some ''0001'')]"
  by code_simp

text \<open>
  Claim C8. The rows whose status is exactly \<^verbatim>\<open>Cancelled\<close> contribute nothing: the table
  that every aggregate is computed from is the same with and without them, and no row of
  that table has the status \<^verbatim>\<open>Cancelled\<close>.
\<close>

theorem cancelled_dropped:
  "normalize (filter (\<lambda>r. Status r \<noteq> Some ''Cancelled'') raw) = normalize raw \<and>
   (normalize raw = Inr df \<longrightarrow> (\<forall>r\<in>set df. Status r \<noteq> Some ''Cancelled''))"
proof (intro conjI impI ballI)
  show "normalize (filter (\<lambda>r. Status r \<noteq> Some ''Cancelled'') raw) = normalize raw"
    by (simp only: normalize_def drop_cancelled_idem)
next
  fix r
  assume run: "normalize raw = Inr df" and r: "r \<in> set df"
  from r have "Status r \<in> set (map Status df)" by simp
  then obtain r0 :: raw_row where "Status r0 \<noteq> Some ''Cancelled''"
    and "Status r = map_option services_sub (clean_cell (Status r0))"
    unfolding normalize_Status [OF run] by auto
  then show "Status r \<noteq> Some ''Cancelled''"
    using final_status_not_Cancelled by simp
qed

theorem cancelled_dropped_witness:
  "normalize scenario = Inr scenario_normalized \<and>
   list_all (\<lambda>r. Status r \<noteq> Some ''Cancelled'') scenario_normalized"
  using cancelled_dropped [of scenario scenario_normalized] normalize_scenario
  by (simp add: list_all_iff)




section \<open>The claims about the parser\<close>




text \<open>
  Claim C7. For a row whose code contains exactly one separator the split succeeds, year
  and identifier are both present, and year, separator and identifier joined give the
  code back.
\<close>

theorem split_rejoin_roundtrip:
  assumes "i < length df" "Mod_No (df ! i) = Some s" "count_list s sep = 1"
  shows "\<exists>df' y m. split_mod_no df = Inr df' \<and> Mod_Yr (df' ! i) = Some y \<and>
           Mod_Id (df' ! i) = Some m \<and> y @ sep # m = s"
proof -
  have mem: "sep \<in> set s"
    using assms(3) count_list_0_iff_notin [of s sep] by simp
  have "parts (df ! i) \<in> set (map parts df)"
    using assms(1) by simp
  then have "width (parts (df ! i)) \<le> n_columns (map parts df)"
    by (rule width_le_n_columns)
  moreover have "width (parts (df ! i)) = 2"
    using assms(2,3) by (simp add: width_def split_on_length)
  ultimately have "1 < n_columns (map parts df)" by simp
  moreover have "\<exists>r\<in>set df. Mod_No r \<noteq> None"
    using assms(1,2) nth_mem [of i df] by force
  ultimately obtain df' where run: "split_mod_no df = Inr df'"
    using split_mod_no_ok by blast
  have rest: "sep \<notin> set (tl (dropWhile (\<lambda>c. c \<noteq> sep) s))"
    using assms(3) by (rule count_one_rest)
  have whole: "takeWhile (\<lambda>c. c \<noteq> sep) (tl (dropWhile (\<lambda>c. c \<noteq> sep) s)) =
      tl (dropWhile (\<lambda>c. c \<noteq> sep) s)"
    using rest by (auto simp: takeWhile_eq_all_conv)
  have "Mod_Yr (df' ! i) = Some (takeWhile (\<lambda>c. c \<noteq> sep) s) \<and>
      Mod_Id (df' ! i) = Some (tl (dropWhile (\<lambda>c. c \<noteq> sep) s))"
    using split_row_fields [OF run assms(1,2)] mem by (simp only: whole if_True)
  moreover have "takeWhile (\<lambda>c. c \<noteq> sep) s @ sep # tl (dropWhile (\<lambda>c. c \<noteq> sep) s) = s"
    using mem by (rule take_drop_sep)
  ultimately show ?thesis using run by blast
qed

theorem split_rejoin_roundtrip_witness:
  "\<exists>df' y m. split_mod_no [sample_row ''2019-0001'' ''MM8'' ''Active'' ''5228285''] = Inr df' \<and>
     Mod_Yr (df' ! 0) = Some y \<and> Mod_Id (df' ! 0) = Some m \<and> y @ sep # m = ''2019-0001''"
proof -
  have code: "Mod_No ([sample_row ''2019-0001'' ''MM8'' ''Active'' ''5228285''] ! 0) =
      Some ''2019-0001''"
    by (simp add: sample_row_def)
  have one: "count_list ''2019-0001'' sep = 1"
    by (simp add: sep_def)
  show ?thesis
    using split_rejoin_roundtrip [OF _ code one] by simp
qed

section \<open>The claims about the aggregates\<close>

text \<open>
  Claim C4, amended. \<^verbatim>\<open>value_counts\<close> leaves out the rows whose key is missing, and a
  project classified as N/A is a missing cell: there is no N/A bucket, and such a record
  is left out of the per-project counts only. The per-area counts sum to the number of
  surviving records whose area is not missing, and the per-project counts sum to the
  number of surviving records whose project is not missing.
\<close>

theorem counts_sum_to_present_rows:
  "sum_list (map snd (counts df)) = length (filter (\<lambda>r. Area r \<noteq> None) df) \<and>
   sum_list (map snd (dfp df)) = length (filter (\<lambda>r. Project r \<noteq> None) df)"
  by (simp add: counts_def dfp_def sum_value_counts)

text \<open>
  Claim C4 as stated fails on a table of three records, one in each fixed area, the
  third with the placeholder project \<^verbatim>\<open>TBC\<close>: all three survive, the per-area counts sum
  to 3, the count table of the projects has the one key 5228285 with the count 2, and
  line 196 prints 2 modifications related to 1 project out of 3.
\<close>

theorem project_counts_counterexample:
  "normalize (one_year ''TBC'') = Inr (one_year_normalized None) \<and>
   length (one_year_normalized None) = 3 \<and>
   sum_list (map snd (counts (one_year_normalized None))) = 3 \<and>
   dfp (one_year_normalized None) = [(''5228285'', 2)] \<and>
   printed_summary (one_year ''TBC'') = Inr (2, 1, 3)"
  by code_simp

text \<open>
  Claim C10. The summary of lines 204 and 205 is taken from the table of line 197, from
  which the projects with at most \<^verbatim>\<open>PROJECT_THRESHOLD\<close> modifications are gone. If every
  project has at most that many, \<^verbatim>\<open>idxmax\<close> raises \<^verbatim>\<open>ValueError\<close> on the empty table;
  otherwise the summary names a project of the count table together with its count,
  which is above the threshold and is the largest count of the table.
\<close>

theorem largest_project_after_threshold:
  "((\<forall>(p, n)\<in>set (dfp df). n \<le> PROJECT_THRESHOLD) \<longrightarrow>
      largest_project df = Inl ValueError) \<and>
   ((\<exists>(p, n)\<in>set (dfp df). PROJECT_THRESHOLD < n) \<longrightarrow>
      (\<exists>p n. largest_project df = Inr (p, n) \<and> (p, n) \<in> set (dfp df) \<and>
             PROJECT_THRESHOLD < n \<and> (\<forall>(q, m)\<in>set (dfp df). m \<le> n)))"
proof (intro conjI impI)
  assume "\<forall>(p, n)\<in>set (dfp df). n \<le> PROJECT_THRESHOLD"
  then have "dfp_shown df = []"
    by (auto simp: dfp_shown_def filter_empty_conv)
  then show "largest_project df = Inl ValueError"
    by (simp add: largest_project_def idxmax_Nil)
next
  assume "\<exists>(p, n)\<in>set (dfp df). PROJECT_THRESHOLD < n"
  then have ne: "dfp_shown df \<noteq> []"
    by (auto simp: dfp_shown_def filter_empty_conv)
  have pos: "\<forall>(p, n)\<in>set (dfp_shown df). 0 < n"
    by (auto simp: dfp_shown_def)
  from idxmax_nonempty [OF ne pos] obtain p
    where p: "idxmax (dfp_shown df) = Inr p" "(p, max_count (dfp_shown df)) \<in> set (dfp_shown df)"
    by blast
  let ?n = "max_count (dfp_shown df)"
  have run: "largest_project df = Inr (p, ?n)"
    using p(1) by (simp add: largest_project_def)
  have mem: "(p, ?n) \<in> set (dfp df)" and big: "PROJECT_THRESHOLD < ?n"
    using p(2) by (auto simp: dfp_shown_def)
  have "\<forall>(q, m)\<in>set (dfp df). m \<le> ?n"
  proof (clarify)
    fix q m
    assume qm: "(q, m) \<in> set (dfp df)"
    show "m \<le> ?n"
    proof (cases "PROJECT_THRESHOLD < m")
      case True
      with qm have "(q, m) \<in> set (dfp_shown df)" by (simp add: dfp_shown_def)
      then show ?thesis by (rule le_max_count)
    next
      case False
      with big show ?thesis by simp
    qed
  qed
  with run mem big
  show "\<exists>p n. largest_project df = Inr (p, n) \<and> (p, n) \<in> set (dfp df) \<and>
             PROJECT_THRESHOLD < n \<and> (\<forall>(q, m)\<in>set (dfp df). m \<le> n)"
    by blast
qed

theorem largest_project_after_threshold_witness:
  "largest_project scenario_normalized = Inl ValueError \<and>
   (\<exists>p n. largest_project six_mods = Inr (p, n) \<and> (p, n) \<in> set (dfp six_mods) \<and>
          PROJECT_THRESHOLD < n)"
proof -
  have a: "\<forall>(p, n)\<in>set (dfp scenario_normalized). n \<le> PROJECT_THRESHOLD"
    by (simp add: dfp_scenario PROJECT_THRESHOLD_def)
  have b: "\<exists>(p, n)\<in>set (dfp six_mods). PROJECT_THRESHOLD < n"
    by (simp add: dfp_six_mods PROJECT_THRESHOLD_def)
  from a largest_project_after_threshold [of scenario_normalized]
  have "largest_project scenario_normalized = Inl ValueError" by blast
  moreover from b largest_project_after_threshold [of six_mods]
  have "\<exists>p n. largest_project six_mods = Inr (p, n) \<and> (p, n) \<in> set (dfp six_mods) \<and>
      PROJECT_THRESHOLD < n" by blast
  ultimately show ?thesis by blast
qed

text \<open>
  Claim C2 at a table the code does not handle as the claim says: the first scenario of
  the specification. Line 160 sets up one row per year of the per-year table, here 2019
  and 2020, and the comment there announces the count of each year in one column per
  area. The list that line 164 assigns has an entry only for the years in which the area
  has records: Cyanides has none in 2020, the list is too short, and the assignment
  raises \<^verbatim>\<open>ValueError\<close> where the claim has a row for 2020 with the count 0.
\<close>

theorem cdf_raises_on_missing_year:
  "normalize scenario = Inr scenario_normalized \<and>
   sort (map fst (value_counts Mod_Yr scenario_normalized)) = [''2019'', ''2020''] \<and>
   spec_cell_count scenario_normalized ''2020'' ''Cyanides'' = 0 \<and>
   area_column scenario_normalized ''Cyanides'' = [Num 1] \<and>
   cdf scenario_normalized = Inl ValueError"
  by code_simp




end
